theory Spec2Isabelle
  imports Complex_Main "HOL-Library.Sublist"
begin

section \<open>The audio-forensics inference service and its caller\<close>

text \<open>
  A shallow embedding of \<^verbatim>\<open>src/services/geminiService.ts\<close> (the function
  \<^verbatim>\<open>analyzeAudio\<close> with its inner helper \<^verbatim>\<open>attemptAnalysis\<close>) and of the
  submit handler \<^verbatim>\<open>handleSubmit\<close> of the application component.

  The remote model and the JavaScript runtime are the environment: the outcome of the
  \<open>k\<close>-th call of \<^verbatim>\<open>ai.models.generateContent\<close> and the behaviour of
  \<^verbatim>\<open>JSON.parse\<close> are parameters. Everything the code does besides returning a
  value is written into an event list: remote calls, backoff waits, console output.
  A thrown error is the left summand of the result.
\<close>

subsection \<open>Values\<close>

text \<open>
  A JSON value, as \<^verbatim>\<open>JSON.parse\<close> returns it. Numbers are kept exact, as
  rationals; the properties below only compare them with 0 and 1.
\<close>

datatype json =
    JNull
  | JBool bool
  | JNum rat
  | JStr string
  | JArr "json list"
  | JObj "(string \<times> json) list"

text \<open>
  A thrown value: the name of its class and its message. \<^verbatim>\<open>error?.message\<close>
  is \<open>None\<close> when the value has no message; a message, when there is one, is a
  string.
\<close>

datatype js_error = JsError (err_name: string) (message: "string option")

text \<open>\<^verbatim>\<open>msg.includes(s)\<close>: \<open>s\<close> occurs in \<open>msg\<close> as a contiguous run.\<close>

definition str_includes :: "string \<Rightarrow> string \<Rightarrow> bool" where
  "str_includes msg s = sublist s msg"

subsection \<open>The request\<close>

datatype schema_type = OBJECT | STRING | NUMBER

record property_schema =
  ptype :: schema_type
  penum :: "string list option"
  description :: string

record response_schema =
  stype :: schema_type
  properties :: "(string \<times> property_schema) list"
  required :: "string list"

record generation_config =
  responseMimeType :: string
  responseSchema :: response_schema

record thinking_config =
  thinkingBudget :: nat

record attempt_config =
  cfgResponseMimeType :: string
  cfgResponseSchema :: response_schema
  thinkingConfig :: thinking_config
  maxOutputTokens :: nat

datatype part =
    InlineData (mimeType: string) (inline: string)
  | TextPart string

record request_body =
  contents :: "part list"
  config :: generation_config

record request =
  model :: string
  reqContents :: "part list"
  reqConfig :: attempt_config

subsection \<open>The environment and the events\<close>

text \<open>
  What one call of \<^verbatim>\<open>generateContent\<close> does: it rejects with an error, or it
  resolves with a response whose \<^verbatim>\<open>text\<close> is a string or undefined.
\<close>

datatype outcome = Rejects js_error | Resolves "string option"

record env =
  generateContent :: "nat \<Rightarrow> request \<Rightarrow> outcome"
  JSON_parse :: "string \<Rightarrow> js_error + json"

datatype event =
    Call request
  | Wait nat
  | ConsoleWarn string nat
  | ConsoleLog string
  | ConsoleError js_error

text \<open>The requests issued so far, in order.\<close>

fun requests :: "event list \<Rightarrow> request list" where
  "requests [] = []"
| "requests (Call r # es) = r # requests es"
| "requests (e # es) = requests es"

text \<open>The backoff waits so far, in order.\<close>

fun waits :: "event list \<Rightarrow> nat list" where
  "waits [] = []"
| "waits (Wait ms # es) = ms # waits es"
| "waits (e # es) = waits es"

subsection \<open>The prompt and the request body (lines 21 to 77)\<close>

definition criteria :: "string list" where
  \<open>criteria =
    [''1. **Breath & Pauses**: Real humans breathe. AI often forgets to breathe or places breaths at unnatural intervals.'',
     ''2. **Prosody & Intonation**: Human speech has irregular pitch curves. AI often produces "flat" or "perfectly cyclic" pitch patterns.'',
     ''3. **Spectral Artifacts**: Listen for metallic ringing, phasing, or high-frequency buzz typical of neural vocoders.'',
     ''4. **Micro-details**: Lip smacks, tongue clicks, and throat clearing are strong indicators of HUMAN speech.'',
     ''5. **Background**: Absolute digital silence between words is a strong indicator of AI_GENERATED.'']\<close>

definition decisionLogic :: "string list" where
  \<open>decisionLogic =
    [''- If it sounds "too perfect", it is likely AI.'',
     ''- If it has natural imperfections (breaths, clicks, variable pace), it is likely HUMAN.'']\<close>

text \<open>One line of the template literal: six blanks of indentation, the text, a line feed.\<close>

definition line :: "string \<Rightarrow> string" where
  "line s = ''      '' @ s @ [CHR 0x0A]"

definition prompt :: "string \<Rightarrow> string" where
  "prompt language =
     [CHR 0x0A]
     @ line ''You are a specialized Audio Forensics AI participating in a Deepfake Detection Challenge.''
     @ line ''''
     @ line ''TARGET: Classify the input audio as either 'AI_GENERATED' or 'HUMAN'.''
     @ line (''LANGUAGE: '' @ language)
     @ line ''''
     @ line ''EVALUATION CRITERIA:''
     @ concat (map line criteria)
     @ line ''''
     @ line ''DECISION LOGIC:''
     @ concat (map line decisionLogic)
     @ line ''''
     @ line ''OUTPUT: Return a JSON object with the classification, a confidence score (0.0-1.0), and a brief technical explanation.''
     @ ''    ''"

definition responseSchemaDef :: response_schema where
  "responseSchemaDef =
     \<lparr> stype = OBJECT,
       properties =
         [(''classification'',
             \<lparr> ptype = STRING, penum = Some [''AI_GENERATED'', ''HUMAN''],
               description = ''The definitive classification.'' \<rparr>),
          (''confidence'',
             \<lparr> ptype = NUMBER, penum = None,
               description = ''Confidence score (0.0 to 1.0).'' \<rparr>),
          (''explanation'',
             \<lparr> ptype = STRING, penum = None,
               description = ''Technical forensic explanation.'' \<rparr>)],
       required = [''classification'', ''confidence'', ''explanation''] \<rparr>"

definition requestBody :: "string \<Rightarrow> string \<Rightarrow> string \<Rightarrow> request_body" where
  "requestBody base64Data mimeType' language =
     \<lparr> contents = [InlineData mimeType' base64Data, TextPart (prompt language)],
       config = \<lparr> responseMimeType = ''application/json'',
                  responseSchema = responseSchemaDef \<rparr> \<rparr>"

subsection \<open>One attempt and the retry ladder (lines 80 to 125)\<close>

text \<open>The request of one attempt: lines 83 to 93.\<close>

definition attemptRequest :: "request_body \<Rightarrow> string \<Rightarrow> nat \<Rightarrow> request" where
  "attemptRequest rb model' budget =
     (let configWithThinking =
            \<lparr> cfgResponseMimeType = responseMimeType (config rb),
              cfgResponseSchema = responseSchema (config rb),
              thinkingConfig = \<lparr> thinkingBudget = budget \<rparr>,
              maxOutputTokens = budget + 4096 \<rparr>
      in \<lparr> model = model', reqContents = contents rb, reqConfig = configWithThinking \<rparr>)"

definition emptyResponse :: js_error where
  "emptyResponse = JsError ''Error'' (Some ''Empty response from Gemini'')"

text \<open>
  The body of the \<^verbatim>\<open>try\<close> block, lines 89 to 98, for the call number \<open>k\<close>:
  the awaited call, the check of \<^verbatim>\<open>response.text\<close> (undefined and the empty
  string are both falsy) and \<^verbatim>\<open>JSON.parse\<close>, whose value is returned as it is.
\<close>

definition tryBlock :: "env \<Rightarrow> nat \<Rightarrow> request \<Rightarrow> js_error + json" where
  "tryBlock env k req =
     (case generateContent env k req of
        Rejects e \<Rightarrow> Inl e
      | Resolves txt \<Rightarrow>
          (case txt of
             None \<Rightarrow> Inl emptyResponse
           | Some t \<Rightarrow> if t = [] then Inl emptyResponse else JSON_parse env t))"

text \<open>Lines 101 and 102.\<close>

definition isQuota :: "js_error \<Rightarrow> bool" where
  "isQuota error =
     (let msg = (case message error of None \<Rightarrow> [] | Some m \<Rightarrow> m)
      in str_includes msg ''429'' \<or> str_includes msg ''quota''
         \<or> str_includes msg ''resource exhausted'')"

function attemptAnalysis ::
  "env \<Rightarrow> request_body \<Rightarrow> event list \<Rightarrow> string \<Rightarrow> nat \<Rightarrow> nat
     \<Rightarrow> (js_error + json) \<times> event list" where
  "attemptAnalysis env rb tr model' budget retryCount =
     (let req = attemptRequest rb model' budget;
          tr1 = tr @ [Call req]
      in case tryBlock env (length (requests tr)) req of
           Inr v \<Rightarrow> (Inr v, tr1)
         | Inl error \<Rightarrow>
             if isQuota error then
               (let tr2 = tr1 @ [ConsoleWarn model' (retryCount + 1)]
                in if retryCount < 2 then
                     attemptAnalysis env rb (tr2 @ [Wait (2000 * (retryCount + 1))])
                       model' budget (retryCount + 1)
                   else if model' = ''gemini-3-pro-preview'' then
                     attemptAnalysis env rb
                       (tr2 @ [ConsoleLog ''Switching to Gemini 3 Flash for fallback...''])
                       ''gemini-3-flash-preview'' 1024 0
                   else (Inl error, tr2))
             else (Inl error, tr1))"
  by pat_completeness auto
termination
  by (relation "measure (\<lambda>(env, rb, tr, m, budget, retryCount).
        (if m = ''gemini-3-pro-preview'' then 4 else 0) + (3 - retryCount))") auto

declare attemptAnalysis.simps [simp del]

definition analyzeAudio ::
  "env \<Rightarrow> string \<Rightarrow> string \<Rightarrow> string \<Rightarrow> (js_error + json) \<times> event list" where
  "analyzeAudio env base64Data mimeType' language =
     attemptAnalysis env (requestBody base64Data mimeType' language) []
       ''gemini-3-pro-preview'' 2048 0"

subsection \<open>The caller (the submit handler of the application component)\<close>

record audio_data =
  base64 :: string
  audioMimeType :: string

record app_state =
  audioData :: "audio_data option"
  language :: string
  isProcessing :: bool
  result :: "json option"
  error :: "string option"

text \<open>
  Lines 22 to 47 of the component. With no audio loaded the handler returns at once.
  Otherwise it sets the processing flag and clears the error and the result, awaits
  \<^verbatim>\<open>analyzeAudio\<close>, stores the result or, in the \<^verbatim>\<open>catch\<close> block, logs
  the error and chooses the message to show from the text of the error, and in the
  \<^verbatim>\<open>finally\<close> block clears the processing flag.
\<close>

definition handleSubmit :: "env \<Rightarrow> app_state \<Rightarrow> app_state \<times> event list" where
  "handleSubmit env app =
     (case audioData app of
        None \<Rightarrow> (app, [])
      | Some ad \<Rightarrow>
          (let app1 = app \<lparr> isProcessing := True, error := None, result := None \<rparr>
           in case analyzeAudio env (base64 ad) (audioMimeType ad) (language app) of
                (Inr resultData, tr) \<Rightarrow>
                  (app1 \<lparr> result := Some resultData, isProcessing := False \<rparr>, tr)
              | (Inl err, tr) \<Rightarrow>
                  (let msg = (case message err of None \<Rightarrow> [] | Some m \<Rightarrow> m);
                       shown =
                         (if str_includes msg ''429'' \<or> str_includes msg ''quota'' then
                            ''System is experiencing high traffic. Please wait 10 seconds and try again.''
                          else if str_includes msg ''safety'' \<or> str_includes msg ''blocked'' then
                            ''The audio content was flagged by safety filters. Please try a different sample.''
                          else
                            ''Could not analyze audio. Please ensure the file is a valid audio format.'')
                   in (app1 \<lparr> error := Some shown, isProcessing := False \<rparr>,
                       tr @ [ConsoleError err]))))"

subsection \<open>The rungs of the ladder\<close>

text \<open>
  The two requests \<^verbatim>\<open>analyzeAudio\<close> can issue, and the tier of the call
  number \<open>k\<close> (counted from 0): the first three calls go to the primary tier, the
  later ones to the secondary tier.
\<close>

definition primaryRequest :: "string \<Rightarrow> string \<Rightarrow> string \<Rightarrow> request" where
  "primaryRequest b m l = attemptRequest (requestBody b m l) ''gemini-3-pro-preview'' 2048"

definition secondaryRequest :: "string \<Rightarrow> string \<Rightarrow> string \<Rightarrow> request" where
  "secondaryRequest b m l = attemptRequest (requestBody b m l) ''gemini-3-flash-preview'' 1024"

definition tierModel :: "nat \<Rightarrow> string" where
  "tierModel k = (if k < 3 then ''gemini-3-pro-preview'' else ''gemini-3-flash-preview'')"

definition tierBudget :: "nat \<Rightarrow> nat" where
  "tierBudget k = (if k < 3 then 2048 else 1024)"

definition requestAt :: "request_body \<Rightarrow> nat \<Rightarrow> request" where
  "requestAt rb k = attemptRequest rb (tierModel k) (tierBudget k)"

text \<open>The attempt number \<open>k\<close> fails with an error that carries a quota signal.\<close>

definition transientAt :: "env \<Rightarrow> request_body \<Rightarrow> nat \<Rightarrow> bool" where
  "transientAt env rb k =
     (case tryBlock env k (requestAt rb k) of Inl e \<Rightarrow> isQuota e | Inr v \<Rightarrow> False)"

text \<open>The events of the first \<open>k\<close> attempts when each of them failed with a quota signal.\<close>

fun ladder :: "request_body \<Rightarrow> nat \<Rightarrow> event list" where
  "ladder rb 0 = []"
| "ladder rb (Suc k) =
     ladder rb k
     @ [Call (requestAt rb k), ConsoleWarn (tierModel k) (k mod 3 + 1)]
     @ (if k mod 3 < 2 then [Wait (2000 * (k mod 3 + 1))]
        else if k < 3 then [ConsoleLog ''Switching to Gemini 3 Flash for fallback...'']
        else [])"

text \<open>
  The calls and the waits of an event list, console output left out, and the longest
  schedule a request can have.
\<close>

fun schedule :: "event list \<Rightarrow> event list" where
  "schedule [] = []"
| "schedule (Call r # es) = Call r # schedule es"
| "schedule (Wait ms # es) = Wait ms # schedule es"
| "schedule (e # es) = schedule es"

definition fullSchedule :: "string \<Rightarrow> string \<Rightarrow> string \<Rightarrow> event list" where
  "fullSchedule b m l =
     [Call (primaryRequest b m l), Wait 2000, Call (primaryRequest b m l), Wait 4000,
      Call (primaryRequest b m l),
      Call (secondaryRequest b m l), Wait 2000, Call (secondaryRequest b m l), Wait 4000,
      Call (secondaryRequest b m l)]"

text \<open>No call is followed directly by another call: a wait lies between any two.\<close>

fun callsSeparated :: "event list \<Rightarrow> bool" where
  "callsSeparated (Call r # Call r' # es) = False"
| "callsSeparated (e # es) = callsSeparated es"
| "callsSeparated [] = True"

subsection \<open>The invariant of the specification\<close>

text \<open>
  The specification's invariant of an analysis result, in its words: the classification
  is one of the two enumerated values and the confidence lies in the closed unit
  interval. It is stated on the value \<^verbatim>\<open>JSON.parse\<close> returns, since the code casts
  that value to the result type without a check at run time.
\<close>

definition specInvariant :: "json \<Rightarrow> bool" where
  "specInvariant v =
     (case v of
        JObj kvs \<Rightarrow>
          (case (map_of kvs ''classification'', map_of kvs ''confidence'') of
             (Some (JStr c), Some (JNum x)) \<Rightarrow>
               (c = ''AI_GENERATED'' \<or> c = ''HUMAN'') \<and> 0 \<le> x \<and> x \<le> 1
           | _ \<Rightarrow> False)
      | _ \<Rightarrow> False)"

subsection \<open>The criteria in the words of the specification\<close>

text \<open>
  The five evaluation criteria and the decision heuristic as the specification words
  them in its section 4.1, where it asks for them to be embedded verbatim. They are kept
  apart from \<open>criteria\<close> and \<open>decisionLogic\<close> above, which hold the wording of
  the source. The dash of the specification is the three bytes of its UTF-8 encoding.
\<close>

definition emDash :: string where
  "emDash = [CHR 0xE2, CHR 0x80, CHR 0x94]"

definition specCriteria :: "string list" where
  "specCriteria =
    [''Breath/pause naturalness '' @ emDash @ '' absent or mistimed breathing suggests synthesis.'',
     ''Prosody/intonation irregularity '' @ emDash @ '' human pitch curves are irregular; overly flat or cyclic pitch suggests synthesis.'',
     ''Spectral artifacts '' @ emDash @ '' metallic ringing, phasing, high-frequency buzz suggest a neural vocoder.'',
     ''Micro-details '' @ emDash @ '' lip smacks, tongue clicks, throat clearing suggest a human source.'',
     ''Background noise floor '' @ emDash @ '' absolute digital silence between words suggests synthesis.'']"

definition specHeuristic :: string where
  \<open>specHeuristic = ''audio that sounds "too perfect" leans AI_GENERATED; audio with natural imperfections leans HUMAN.''\<close>

subsection \<open>Sample environments\<close>

text \<open>
  A scripted environment: the call number \<open>k\<close> answers with the \<open>k\<close>-th entry of
  the script (a network failure once the script is used up), and \<^verbatim>\<open>JSON.parse\<close>
  is tabulated on the bodies that occur.
\<close>

definition scripted :: "outcome list \<Rightarrow> (string \<times> (js_error + json)) list \<Rightarrow> env" where
  "scripted script table =
     \<lparr> generateContent =
         (\<lambda>k req. if k < length script then script ! k
                  else Rejects (JsError ''TypeError'' (Some ''fetch failed''))),
       JSON_parse =
         (\<lambda>t. case map_of table t of
                Some r \<Rightarrow> r
              | None \<Rightarrow> Inl (JsError ''SyntaxError'' (Some ''Unexpected end of JSON input''))) \<rparr>"

definition tooManyRequests :: js_error where
  "tooManyRequests = JsError ''Error'' (Some ''got status: 429 Too Many Requests'')"

definition throttledEnv :: env where
  "throttledEnv = scripted (replicate 6 (Rejects tooManyRequests)) []"

definition resourceExhausted :: js_error where
  "resourceExhausted = JsError ''Error'' (Some ''resource exhausted'')"

definition exhaustedEnv :: env where
  "exhaustedEnv = scripted (replicate 6 (Rejects resourceExhausted)) []"

definition invalidKey :: js_error where
  "invalidKey = JsError ''Error'' (Some ''API key not valid. Please pass a valid API key.'')"

definition goodBody :: string where
  \<open>goodBody = ''{"classification":"AI_GENERATED","confidence":0.92,"explanation":"flat pitch, no breath artifacts"}''\<close>

definition goodResult :: json where
  "goodResult =
     JObj [(''classification'', JStr ''AI_GENERATED''), (''confidence'', JNum (92 / 100)),
           (''explanation'', JStr ''flat pitch, no breath artifacts'')]"

definition recoveringEnv :: env where
  "recoveringEnv =
     scripted [Rejects tooManyRequests, Resolves (Some goodBody)] [(goodBody, Inr goodResult)]"

text \<open>A body that parses, with a confidence of 1.7.\<close>

definition overconfidentBody :: string where
  \<open>overconfidentBody = ''{"classification":"HUMAN","confidence":1.7,"explanation":"breaths"}''\<close>

definition overconfidentResult :: json where
  "overconfidentResult =
     JObj [(''classification'', JStr ''HUMAN''), (''confidence'', JNum (17 / 10)),
           (''explanation'', JStr ''breaths'')]"

definition overconfidentEnv :: env where
  "overconfidentEnv =
     scripted [Resolves (Some overconfidentBody)] [(overconfidentBody, Inr overconfidentResult)]"

definition overconfidentAfterRetryEnv :: env where
  "overconfidentAfterRetryEnv =
     scripted [Rejects tooManyRequests, Resolves (Some overconfidentBody)]
       [(overconfidentBody, Inr overconfidentResult)]"

text \<open>
  A body that is not JSON. The parser's error quotes the body in its message, as the
  V8 engine does, so the message carries the word the quota check looks for. The second
  call answers with a well-formed body.
\<close>

definition quotaBody :: string where
  "quotaBody = ''quota exceeded''"

definition quotaSyntaxError :: js_error where
  \<open>quotaSyntaxError =
     JsError ''SyntaxError'' (Some ''Unexpected token 'q', "quota exceeded" is not valid JSON'')\<close>

definition reparsedEnv :: env where
  "reparsedEnv =
     scripted [Resolves (Some quotaBody), Resolves (Some goodBody)]
       [(quotaBody, Inl quotaSyntaxError), (goodBody, Inr goodResult)]"

text \<open>A body that parses, with a classification outside the enumeration.\<close>

definition unlabelledBody :: string where
  \<open>unlabelledBody = ''{"classification":"UNKNOWN","confidence":0.5,"explanation":"n/a"}''\<close>

definition unlabelledResult :: json where
  "unlabelledResult =
     JObj [(''classification'', JStr ''UNKNOWN''), (''confidence'', JNum (1 / 2)),
           (''explanation'', JStr ''n/a'')]"

definition unlabelledEnv :: env where
  "unlabelledEnv =
     scripted [Resolves (Some unlabelledBody)] [(unlabelledBody, Inr unlabelledResult)]"

definition emptyAfterRetryEnv :: env where
  "emptyAfterRetryEnv = scripted [Rejects tooManyRequests, Resolves (Some [])] []"

text \<open>The application with a recording loaded, before the submit button is pressed.\<close>

definition readyApp :: app_state where
  "readyApp =
     \<lparr> audioData = Some \<lparr> base64 = ''UklGRg=='', audioMimeType = ''audio/wav'' \<rparr>,
       language = ''English'', isProcessing = False, result = None, error = None \<rparr>"

section \<open>Properties\<close>

subsection \<open>Single steps of the helper\<close>

lemma requests_append [simp]: "requests (xs @ ys) = requests xs @ requests ys"
  by (induction xs rule: requests.induct) simp_all

lemma waits_append [simp]: "waits (xs @ ys) = waits xs @ waits ys"
  by (induction xs rule: waits.induct) simp_all

lemma tryBlock_Rejects: "generateContent env k req = Rejects e \<Longrightarrow> tryBlock env k req = Inl e"
  by (simp add: tryBlock_def)

lemma attemptAnalysis_success:
  "tryBlock env (length (requests tr)) (attemptRequest rb m b) = Inr v \<Longrightarrow>
   attemptAnalysis env rb tr m b rc = (Inr v, tr @ [Call (attemptRequest rb m b)])"
  by (simp add: attemptAnalysis.simps [of env rb tr m b rc] Let_def)

lemma attemptAnalysis_fatal:
  "tryBlock env (length (requests tr)) (attemptRequest rb m b) = Inl e \<Longrightarrow> \<not> isQuota e \<Longrightarrow>
   attemptAnalysis env rb tr m b rc = (Inl e, tr @ [Call (attemptRequest rb m b)])"
  by (simp add: attemptAnalysis.simps [of env rb tr m b rc] Let_def)

lemma attemptAnalysis_retry:
  "tryBlock env (length (requests tr)) (attemptRequest rb m b) = Inl e \<Longrightarrow> isQuota e \<Longrightarrow>
   rc < 2 \<Longrightarrow>
   attemptAnalysis env rb tr m b rc =
     attemptAnalysis env rb
       (tr @ [Call (attemptRequest rb m b), ConsoleWarn m (rc + 1), Wait (2000 * (rc + 1))])
       m b (rc + 1)"
  by (simp add: attemptAnalysis.simps [of env rb tr m b rc] Let_def)

lemma attemptAnalysis_fallback:
  "tryBlock env (length (requests tr)) (attemptRequest rb ''gemini-3-pro-preview'' b) = Inl e \<Longrightarrow>
   isQuota e \<Longrightarrow> \<not> rc < 2 \<Longrightarrow>
   attemptAnalysis env rb tr ''gemini-3-pro-preview'' b rc =
     attemptAnalysis env rb
       (tr @ [Call (attemptRequest rb ''gemini-3-pro-preview'' b),
              ConsoleWarn ''gemini-3-pro-preview'' (rc + 1),
              ConsoleLog ''Switching to Gemini 3 Flash for fallback...''])
       ''gemini-3-flash-preview'' 1024 0"
  by (simp add: attemptAnalysis.simps [of env rb tr "''gemini-3-pro-preview''" b rc] Let_def)

lemma attemptAnalysis_exhausted:
  "tryBlock env (length (requests tr)) (attemptRequest rb m b) = Inl e \<Longrightarrow> isQuota e \<Longrightarrow>
   \<not> rc < 2 \<Longrightarrow> m \<noteq> ''gemini-3-pro-preview'' \<Longrightarrow>
   attemptAnalysis env rb tr m b rc =
     (Inl e, tr @ [Call (attemptRequest rb m b), ConsoleWarn m (rc + 1)])"
  by (simp add: attemptAnalysis.simps [of env rb tr m b rc] Let_def)

subsection \<open>The run as a whole\<close>

lemma requests_ladder: "requests (ladder rb k) = map (requestAt rb) [0..<k]"
  by (induction k) simp_all

lemma length_requests_ladder [simp]: "length (requests (ladder rb k)) = k"
  by (simp add: requests_ladder)

lemma transientAtE:
  assumes "transientAt env rb k"
  obtains e where "tryBlock env k (requestAt rb k) = Inl e" "isQuota e"
  using assms by (auto simp: transientAt_def split: sum.splits)

lemma ladder_step:
  assumes k: "k < 5" and t: "transientAt env rb k"
  shows "attemptAnalysis env rb (ladder rb k) (tierModel k) (tierBudget k) (k mod 3)
         = attemptAnalysis env rb (ladder rb (Suc k)) (tierModel (Suc k)) (tierBudget (Suc k))
             (Suc k mod 3)"
proof -
  obtain e where e: "tryBlock env (length (requests (ladder rb k)))
                       (attemptRequest rb (tierModel k) (tierBudget k)) = Inl e" "isQuota e"
    using t by (auto elim: transientAtE simp: requestAt_def)
  show ?thesis
  proof (cases "k = 2")
    case True
    then have m: "tierModel k = ''gemini-3-pro-preview''" "\<not> k mod 3 < 2" "k < 3"
      "tierModel (Suc k) = ''gemini-3-flash-preview''" "tierBudget (Suc k) = 1024"
      "Suc k mod 3 = 0"
      by (simp_all add: tierModel_def tierBudget_def)
    show ?thesis
      using attemptAnalysis_fallback [OF e [unfolded m(1)] m(2)] m
      by (simp add: requestAt_def)
  next
    case False
    then have "k = 0 \<or> k = 1 \<or> k = 3 \<or> k = 4"
      using k by arith
    then have m: "k mod 3 < 2" "Suc k mod 3 = k mod 3 + 1"
      "tierModel (Suc k) = tierModel k" "tierBudget (Suc k) = tierBudget k"
      by (auto simp: tierModel_def tierBudget_def)
    show ?thesis
      using attemptAnalysis_retry [OF e m(1)] m
      by (simp add: requestAt_def)
  qed
qed

lemma ladder_run:
  "k \<le> 5 \<Longrightarrow> (\<forall>i<k. transientAt env rb i) \<Longrightarrow>
   attemptAnalysis env rb [] ''gemini-3-pro-preview'' 2048 0
   = attemptAnalysis env rb (ladder rb k) (tierModel k) (tierBudget k) (k mod 3)"
proof (induction k)
  case 0
  show ?case by (simp add: tierModel_def tierBudget_def)
next
  case (Suc k)
  then have "attemptAnalysis env rb [] ''gemini-3-pro-preview'' 2048 0
     = attemptAnalysis env rb (ladder rb k) (tierModel k) (tierBudget k) (k mod 3)"
    by simp
  also have "\<dots> = attemptAnalysis env rb (ladder rb (Suc k)) (tierModel (Suc k))
                      (tierBudget (Suc k)) (Suc k mod 3)"
    using Suc.prems by (intro ladder_step) simp_all
  finally show ?case .
qed

text \<open>Some attempt among the first six ends the request: the first one that is not transient.\<close>

lemma last_attempt:
  obtains k where "k \<le> 5" "\<forall>i<k. transientAt env rb i" "k = 5 \<or> \<not> transientAt env rb k"
proof (cases "\<forall>i<5. transientAt env rb i")
  case True
  then show ?thesis using that [of 5] by simp
next
  case False
  then obtain j where j: "j < 5" "\<not> transientAt env rb j" by auto
  define k where "k = (LEAST i. \<not> transientAt env rb i)"
  have "\<not> transientAt env rb k"
    unfolding k_def using j(2) by (rule LeastI)
  moreover have "k \<le> j"
    unfolding k_def using j(2) by (rule Least_le)
  moreover have "\<forall>i<k. transientAt env rb i"
    unfolding k_def using not_less_Least by blast
  ultimately show ?thesis
    using that [of k] j(1) by simp
qed

lemma attemptAnalysis_final:
  assumes "\<forall>i<k. transientAt env rb i" and "k \<le> 5" and "k = 5 \<or> \<not> transientAt env rb k"
  shows "attemptAnalysis env rb [] ''gemini-3-pro-preview'' 2048 0 =
           (tryBlock env k (requestAt rb k),
            ladder rb k @ [Call (requestAt rb k)]
            @ (if transientAt env rb k then [ConsoleWarn ''gemini-3-flash-preview'' 3] else []))"
proof -
  have run: "attemptAnalysis env rb [] ''gemini-3-pro-preview'' 2048 0
     = attemptAnalysis env rb (ladder rb k) (tierModel k) (tierBudget k) (k mod 3)"
    using assms by (intro ladder_run) simp_all
  show ?thesis
  proof (cases "tryBlock env k (requestAt rb k)")
    case (Inr v)
    then show ?thesis
      using attemptAnalysis_success [of env "ladder rb k" rb "tierModel k" "tierBudget k" v "k mod 3"]
      by (simp add: run requestAt_def transientAt_def)
  next
    case (Inl e)
    show ?thesis
    proof (cases "isQuota e")
      case False
      then show ?thesis
        using Inl attemptAnalysis_fatal [of env "ladder rb k" rb "tierModel k" "tierBudget k" e "k mod 3"]
        by (simp add: run requestAt_def transientAt_def)
    next
      case True
      then have "k = 5"
        using assms(3) Inl by (simp add: transientAt_def)
      then show ?thesis
        using Inl True
          attemptAnalysis_exhausted [of env "ladder rb k" rb "tierModel k" "tierBudget k" e "k mod 3"]
        by (simp add: run requestAt_def transientAt_def tierModel_def tierBudget_def)
    qed
  qed
qed

lemma analyzeAudio_run:
  obtains k where "k \<le> 5" "\<forall>i<k. transientAt env (requestBody b m l) i"
    "k = 5 \<or> \<not> transientAt env (requestBody b m l) k"
    "analyzeAudio env b m l =
       (tryBlock env k (requestAt (requestBody b m l) k),
        ladder (requestBody b m l) k @ [Call (requestAt (requestBody b m l) k)]
        @ (if transientAt env (requestBody b m l) k
           then [ConsoleWarn ''gemini-3-flash-preview'' 3] else []))"
proof -
  obtain k where k: "k \<le> 5" "\<forall>i<k. transientAt env (requestBody b m l) i"
    "k = 5 \<or> \<not> transientAt env (requestBody b m l) k"
    by (rule last_attempt)
  show ?thesis
    using k attemptAnalysis_final [OF k(2) k(1) k(3)] that [of k]
    by (simp add: analyzeAudio_def)
qed

lemma requestAt_primary: "k < 3 \<Longrightarrow> requestAt (requestBody b m l) k = primaryRequest b m l"
  by (simp add: requestAt_def primaryRequest_def tierModel_def tierBudget_def)

lemma requestAt_secondary: "\<not> k < 3 \<Longrightarrow> requestAt (requestBody b m l) k = secondaryRequest b m l"
  by (simp add: requestAt_def secondaryRequest_def tierModel_def tierBudget_def)

lemma model_primaryRequest [simp]: "model (primaryRequest b m l) = ''gemini-3-pro-preview''"
  by (simp add: primaryRequest_def attemptRequest_def)

lemma model_secondaryRequest [simp]: "model (secondaryRequest b m l) = ''gemini-3-flash-preview''"
  by (simp add: secondaryRequest_def attemptRequest_def)

lemma upto_six:
  "k \<le> 5 \<Longrightarrow> k = 0 \<or> k = Suc 0 \<or> k = Suc (Suc 0) \<or> k = Suc (Suc (Suc 0))
     \<or> k = Suc (Suc (Suc (Suc 0))) \<or> k = Suc (Suc (Suc (Suc (Suc 0))))"
  by arith

lemma mod3_facts:
  "Suc 0 mod 3 = 1" "Suc (Suc 0) mod 3 = 2" "Suc (Suc (Suc 0)) mod 3 = 0"
  "Suc (Suc (Suc (Suc 0))) mod 3 = 1"
  by presburger+

lemma requests_of_run:
  assumes "k \<le> 5"
  shows "map (requestAt (requestBody b m l)) [0..<Suc k]
         = take (Suc k) (replicate 3 (primaryRequest b m l) @ replicate 3 (secondaryRequest b m l))"
  using upto_six [OF assms]
  by (auto simp: requestAt_primary requestAt_secondary numeral_3_eq_3)

lemma schedule_append [simp]: "schedule (xs @ ys) = schedule xs @ schedule ys"
  by (induction xs rule: schedule.induct) simp_all

lemma schedule_of_run:
  assumes "k \<le> 5"
  shows "schedule (ladder (requestBody b m l) k @ [Call (requestAt (requestBody b m l) k)])
         = take (if k < 3 then 2 * k + 1 else 2 * k) (fullSchedule b m l)"
  using upto_six [OF assms]
  by (elim disjE)
     (simp_all add: mod3_facts fullSchedule_def requestAt_primary requestAt_secondary)

lemma waits_of_run:
  assumes "k \<le> 5"
  shows "waits (ladder rb k) = take (if k < 3 then k else k - 1) [2000, 4000, 2000, 4000]"
  using upto_six [OF assms]
  by (elim disjE) (simp_all add: mod3_facts)

subsection \<open>Runs used more than once\<close>

lemma first_attempt_success:
  "tryBlock env 0 (primaryRequest b m l) = Inr v \<Longrightarrow>
   analyzeAudio env b m l = (Inr v, [Call (primaryRequest b m l)])"
  using attemptAnalysis_success [of env "[]" "requestBody b m l" "''gemini-3-pro-preview''" 2048 v 0]
  by (simp add: analyzeAudio_def primaryRequest_def)

lemma after_first_transient:
  assumes "tryBlock env 0 (primaryRequest b m l) = Inl e" "isQuota e"
  shows "analyzeAudio env b m l =
           attemptAnalysis env (requestBody b m l)
             [Call (primaryRequest b m l), ConsoleWarn ''gemini-3-pro-preview'' 1, Wait 2000]
             ''gemini-3-pro-preview'' 2048 1"
  using attemptAnalysis_retry [of env "[]" "requestBody b m l" "''gemini-3-pro-preview''" 2048 e 0]
    assms
  by (simp add: analyzeAudio_def primaryRequest_def)

lemma first_transient_second_success:
  assumes "tryBlock env 0 (primaryRequest b m l) = Inl e" "isQuota e"
    and "tryBlock env 1 (primaryRequest b m l) = Inr v"
  shows "analyzeAudio env b m l =
           (Inr v, [Call (primaryRequest b m l), ConsoleWarn ''gemini-3-pro-preview'' 1,
                    Wait 2000, Call (primaryRequest b m l)])"
proof -
  let ?t1 = "[Call (primaryRequest b m l), ConsoleWarn ''gemini-3-pro-preview'' 1, Wait 2000]"
  have "tryBlock env (length (requests ?t1))
          (attemptRequest (requestBody b m l) ''gemini-3-pro-preview'' 2048) = Inr v"
    using assms(3) by (simp add: primaryRequest_def)
  then have "attemptAnalysis env (requestBody b m l) ?t1 ''gemini-3-pro-preview'' 2048 1
             = (Inr v, ?t1 @ [Call (attemptRequest (requestBody b m l) ''gemini-3-pro-preview'' 2048)])"
    by (rule attemptAnalysis_success)
  then show ?thesis
    by (simp add: after_first_transient [OF assms(1,2)] primaryRequest_def)
qed

lemma first_transient_second_fatal:
  assumes "tryBlock env 0 (primaryRequest b m l) = Inl e" "isQuota e"
    and "tryBlock env 1 (primaryRequest b m l) = Inl e'" "\<not> isQuota e'"
  shows "analyzeAudio env b m l =
           (Inl e', [Call (primaryRequest b m l), ConsoleWarn ''gemini-3-pro-preview'' 1,
                     Wait 2000, Call (primaryRequest b m l)])"
proof -
  let ?t1 = "[Call (primaryRequest b m l), ConsoleWarn ''gemini-3-pro-preview'' 1, Wait 2000]"
  have "tryBlock env (length (requests ?t1))
          (attemptRequest (requestBody b m l) ''gemini-3-pro-preview'' 2048) = Inl e'"
    using assms(3) by (simp add: primaryRequest_def)
  then have "attemptAnalysis env (requestBody b m l) ?t1 ''gemini-3-pro-preview'' 2048 1
             = (Inl e', ?t1 @ [Call (attemptRequest (requestBody b m l) ''gemini-3-pro-preview'' 2048)])"
    using assms(4) by (rule attemptAnalysis_fatal)
  then show ?thesis
    by (simp add: after_first_transient [OF assms(1,2)] primaryRequest_def)
qed

subsection \<open>Errors with and without a quota signal\<close>

lemma isQuota_tooManyRequests: "isQuota tooManyRequests"
  by (simp add: isQuota_def tooManyRequests_def str_includes_def sublist_code)

lemma isQuota_resourceExhausted: "isQuota resourceExhausted"
  by (simp add: isQuota_def resourceExhausted_def str_includes_def sublist_code)

lemma not_isQuota_emptyResponse: "\<not> isQuota emptyResponse"
  by (simp add: isQuota_def emptyResponse_def str_includes_def sublist_code)

lemma not_isQuota_invalidKey: "\<not> isQuota invalidKey"
  by (simp add: isQuota_def invalidKey_def str_includes_def sublist_code)

subsection \<open>Six transient failures in a row\<close>

lemma persistent_throttling_run:
  assumes transient: "\<And>k req. k < 6 \<Longrightarrow> \<exists>e. generateContent env k req = Rejects e \<and> isQuota e"
  shows "\<exists>e. analyzeAudio env b m l =
           (Inl e,
            [Call (primaryRequest b m l), ConsoleWarn ''gemini-3-pro-preview'' 1, Wait 2000,
             Call (primaryRequest b m l), ConsoleWarn ''gemini-3-pro-preview'' 2, Wait 4000,
             Call (primaryRequest b m l), ConsoleWarn ''gemini-3-pro-preview'' 3,
             ConsoleLog ''Switching to Gemini 3 Flash for fallback...'',
             Call (secondaryRequest b m l), ConsoleWarn ''gemini-3-flash-preview'' 1, Wait 2000,
             Call (secondaryRequest b m l), ConsoleWarn ''gemini-3-flash-preview'' 2, Wait 4000,
             Call (secondaryRequest b m l), ConsoleWarn ''gemini-3-flash-preview'' 3])
         \<and> generateContent env 5 (secondaryRequest b m l) = Rejects e \<and> isQuota e"
proof -
  define rb where "rb = requestBody b m l"
  define P where "P = attemptRequest rb ''gemini-3-pro-preview'' 2048"
  define F where "F = attemptRequest rb ''gemini-3-flash-preview'' 1024"
  obtain e0 where e0: "tryBlock env 0 P = Inl e0" "isQuota e0"
    using transient [of 0 P] by (auto simp: tryBlock_Rejects)
  obtain e1 where e1: "tryBlock env (Suc 0) P = Inl e1" "isQuota e1"
    using transient [of "Suc 0" P] by (auto simp: tryBlock_Rejects)
  obtain e2 where e2: "tryBlock env (Suc (Suc 0)) P = Inl e2" "isQuota e2"
    using transient [of "Suc (Suc 0)" P] by (auto simp: tryBlock_Rejects)
  obtain e3 where e3: "tryBlock env (Suc (Suc (Suc 0))) F = Inl e3" "isQuota e3"
    using transient [of "Suc (Suc (Suc 0))" F] by (auto simp: tryBlock_Rejects)
  obtain e4 where e4: "tryBlock env (Suc (Suc (Suc (Suc 0)))) F = Inl e4" "isQuota e4"
    using transient [of "Suc (Suc (Suc (Suc 0)))" F] by (auto simp: tryBlock_Rejects)
  obtain e5 where e5: "generateContent env (Suc (Suc (Suc (Suc (Suc 0))))) F = Rejects e5" "isQuota e5"
    using transient [of "Suc (Suc (Suc (Suc (Suc 0))))" F] by auto
  have t5: "tryBlock env (Suc (Suc (Suc (Suc (Suc 0))))) F = Inl e5"
    using e5 by (simp add: tryBlock_Rejects)
  let ?t1 = "[Call P, ConsoleWarn ''gemini-3-pro-preview'' 1, Wait 2000]"
  let ?t2 = "?t1 @ [Call P, ConsoleWarn ''gemini-3-pro-preview'' 2, Wait 4000]"
  let ?t3 = "?t2 @ [Call P, ConsoleWarn ''gemini-3-pro-preview'' 3,
                    ConsoleLog ''Switching to Gemini 3 Flash for fallback...'']"
  let ?t4 = "?t3 @ [Call F, ConsoleWarn ''gemini-3-flash-preview'' 1, Wait 2000]"
  let ?t5 = "?t4 @ [Call F, ConsoleWarn ''gemini-3-flash-preview'' 2, Wait 4000]"
  let ?t6 = "?t5 @ [Call F, ConsoleWarn ''gemini-3-flash-preview'' 3]"
  have "attemptAnalysis env rb [] ''gemini-3-pro-preview'' 2048 0
        = attemptAnalysis env rb ?t1 ''gemini-3-pro-preview'' 2048 1"
    using attemptAnalysis_retry [of env "[]" rb "''gemini-3-pro-preview''" 2048 e0 0] e0
    by (simp add: P_def numeral_2_eq_2 numeral_3_eq_3)
  also have "\<dots> = attemptAnalysis env rb ?t2 ''gemini-3-pro-preview'' 2048 2"
    using attemptAnalysis_retry [of env ?t1 rb "''gemini-3-pro-preview''" 2048 e1 1] e1
    by (simp add: P_def numeral_2_eq_2 numeral_3_eq_3)
  also have "\<dots> = attemptAnalysis env rb ?t3 ''gemini-3-flash-preview'' 1024 0"
    using attemptAnalysis_fallback [of env ?t2 rb 2048 e2 2] e2
    by (simp add: P_def numeral_2_eq_2 numeral_3_eq_3)
  also have "\<dots> = attemptAnalysis env rb ?t4 ''gemini-3-flash-preview'' 1024 1"
    using attemptAnalysis_retry [of env ?t3 rb "''gemini-3-flash-preview''" 1024 e3 0] e3
    by (simp add: F_def numeral_2_eq_2 numeral_3_eq_3)
  also have "\<dots> = attemptAnalysis env rb ?t5 ''gemini-3-flash-preview'' 1024 2"
    using attemptAnalysis_retry [of env ?t4 rb "''gemini-3-flash-preview''" 1024 e4 1] e4
    by (simp add: F_def numeral_2_eq_2 numeral_3_eq_3)
  also have "\<dots> = (Inl e5, ?t6)"
    using attemptAnalysis_exhausted [of env ?t5 rb "''gemini-3-flash-preview''" 1024 e5 2] t5 e5
    by (simp add: F_def numeral_2_eq_2 numeral_3_eq_3)
  finally have "analyzeAudio env b m l = (Inl e5, ?t6)"
    by (simp add: analyzeAudio_def rb_def)
  moreover have five: "Suc (Suc (Suc (Suc (Suc 0)))) = 5"
    by simp
  have "generateContent env 5 F = Rejects e5"
    using e5(1) unfolding five .
  ultimately show ?thesis
    using e5(2) by (simp add: primaryRequest_def secondaryRequest_def P_def F_def rb_def)
qed

lemma scripted_replicate_run:
  assumes "isQuota err"
  shows "analyzeAudio (scripted (replicate 6 (Rejects err)) []) b m l =
           (Inl err,
            [Call (primaryRequest b m l), ConsoleWarn ''gemini-3-pro-preview'' 1, Wait 2000,
             Call (primaryRequest b m l), ConsoleWarn ''gemini-3-pro-preview'' 2, Wait 4000,
             Call (primaryRequest b m l), ConsoleWarn ''gemini-3-pro-preview'' 3,
             ConsoleLog ''Switching to Gemini 3 Flash for fallback...'',
             Call (secondaryRequest b m l), ConsoleWarn ''gemini-3-flash-preview'' 1, Wait 2000,
             Call (secondaryRequest b m l), ConsoleWarn ''gemini-3-flash-preview'' 2, Wait 4000,
             Call (secondaryRequest b m l), ConsoleWarn ''gemini-3-flash-preview'' 3])"
proof -
  let ?env = "scripted (replicate 6 (Rejects err)) []"
  have "\<exists>e. generateContent ?env k req = Rejects e \<and> isQuota e" if "k < 6" for k req
    using assms that by (simp add: scripted_def)
  from persistent_throttling_run [of ?env b m l, OF this]
  obtain e where e: "analyzeAudio ?env b m l =
           (Inl e,
            [Call (primaryRequest b m l), ConsoleWarn ''gemini-3-pro-preview'' 1, Wait 2000,
             Call (primaryRequest b m l), ConsoleWarn ''gemini-3-pro-preview'' 2, Wait 4000,
             Call (primaryRequest b m l), ConsoleWarn ''gemini-3-pro-preview'' 3,
             ConsoleLog ''Switching to Gemini 3 Flash for fallback...'',
             Call (secondaryRequest b m l), ConsoleWarn ''gemini-3-flash-preview'' 1, Wait 2000,
             Call (secondaryRequest b m l), ConsoleWarn ''gemini-3-flash-preview'' 2, Wait 4000,
             Call (secondaryRequest b m l), ConsoleWarn ''gemini-3-flash-preview'' 3])"
    and g: "generateContent ?env 5 (secondaryRequest b m l) = Rejects e"
    by blast
  have "e = err"
    using g by (simp add: scripted_def)
  then show ?thesis
    using e by simp
qed

lemma throttledEnv_run:
  "analyzeAudio throttledEnv b m l =
           (Inl tooManyRequests,
            [Call (primaryRequest b m l), ConsoleWarn ''gemini-3-pro-preview'' 1, Wait 2000,
             Call (primaryRequest b m l), ConsoleWarn ''gemini-3-pro-preview'' 2, Wait 4000,
             Call (primaryRequest b m l), ConsoleWarn ''gemini-3-pro-preview'' 3,
             ConsoleLog ''Switching to Gemini 3 Flash for fallback...'',
             Call (secondaryRequest b m l), ConsoleWarn ''gemini-3-flash-preview'' 1, Wait 2000,
             Call (secondaryRequest b m l), ConsoleWarn ''gemini-3-flash-preview'' 2, Wait 4000,
             Call (secondaryRequest b m l), ConsoleWarn ''gemini-3-flash-preview'' 3])"
  unfolding throttledEnv_def by (rule scripted_replicate_run) (rule isQuota_tooManyRequests)

section \<open>The claims\<close>

subsection \<open>Persistent throttling\<close>

text \<open>
  Claim C1. When every one of the first six remote calls fails with a quota signal,
  \<^verbatim>\<open>analyzeAudio\<close> calls the primary tier three times, waiting 2000 ms and then
  4000 ms between the calls, switches to the secondary tier, calls it three times with
  the same two waits, and then throws the error of the sixth call, which carries the
  quota signal. The event list is exactly this one: six calls and no more.
\<close>

theorem all_transient_ladder:
  assumes "\<And>k req. k < 6 \<Longrightarrow> \<exists>e. generateContent env k req = Rejects e \<and> isQuota e"
  shows "\<exists>e. analyzeAudio env b m l =
           (Inl e,
            [Call (primaryRequest b m l), ConsoleWarn ''gemini-3-pro-preview'' 1, Wait 2000,
             Call (primaryRequest b m l), ConsoleWarn ''gemini-3-pro-preview'' 2, Wait 4000,
             Call (primaryRequest b m l), ConsoleWarn ''gemini-3-pro-preview'' 3,
             ConsoleLog ''Switching to Gemini 3 Flash for fallback...'',
             Call (secondaryRequest b m l), ConsoleWarn ''gemini-3-flash-preview'' 1, Wait 2000,
             Call (secondaryRequest b m l), ConsoleWarn ''gemini-3-flash-preview'' 2, Wait 4000,
             Call (secondaryRequest b m l), ConsoleWarn ''gemini-3-flash-preview'' 3])
         \<and> generateContent env 5 (secondaryRequest b m l) = Rejects e \<and> isQuota e"
  using assms by (rule persistent_throttling_run)

theorem all_transient_ladder_witness:
  "fst (analyzeAudio throttledEnv ''UklGRg=='' ''audio/wav'' ''English'') = Inl tooManyRequests
   \<and> length (requests (snd (analyzeAudio throttledEnv ''UklGRg=='' ''audio/wav'' ''English''))) = 6
   \<and> waits (snd (analyzeAudio throttledEnv ''UklGRg=='' ''audio/wav'' ''English''))
       = [2000, 4000, 2000, 4000]"
proof -
  have "\<exists>e. generateContent throttledEnv k req = Rejects e \<and> isQuota e" if "k < 6" for k req
    using isQuota_tooManyRequests that by (simp add: throttledEnv_def scripted_def)
  from all_transient_ladder [of throttledEnv "''UklGRg==''" "''audio/wav''" "''English''", OF this]
  obtain e where e: "analyzeAudio throttledEnv ''UklGRg=='' ''audio/wav'' ''English'' =
           (Inl e,
            [Call (primaryRequest ''UklGRg=='' ''audio/wav'' ''English''),
             ConsoleWarn ''gemini-3-pro-preview'' 1, Wait 2000,
             Call (primaryRequest ''UklGRg=='' ''audio/wav'' ''English''),
             ConsoleWarn ''gemini-3-pro-preview'' 2, Wait 4000,
             Call (primaryRequest ''UklGRg=='' ''audio/wav'' ''English''),
             ConsoleWarn ''gemini-3-pro-preview'' 3,
             ConsoleLog ''Switching to Gemini 3 Flash for fallback...'',
             Call (secondaryRequest ''UklGRg=='' ''audio/wav'' ''English''),
             ConsoleWarn ''gemini-3-flash-preview'' 1, Wait 2000,
             Call (secondaryRequest ''UklGRg=='' ''audio/wav'' ''English''),
             ConsoleWarn ''gemini-3-flash-preview'' 2, Wait 4000,
             Call (secondaryRequest ''UklGRg=='' ''audio/wav'' ''English''),
             ConsoleWarn ''gemini-3-flash-preview'' 3])"
    and g: "generateContent throttledEnv 5 (secondaryRequest ''UklGRg=='' ''audio/wav'' ''English'')
            = Rejects e"
    by blast
  have "e = tooManyRequests"
    using g by (simp add: throttledEnv_def scripted_def)
  then show ?thesis
    by (simp add: e)
qed

subsection \<open>No validation of the parsed response\<close>

text \<open>
  Claim C2, as stated, says that a response whose classification is outside the
  enumeration, or whose confidence is outside the unit interval, is rejected, so that
  every returned result satisfies the invariant. The code has no such check: line 98
  returns the value of \<^verbatim>\<open>JSON.parse\<close> under a type cast. Counterexample: the
  first call resolves with a body whose confidence is 1.7; the parsed object is returned
  as the result, and it violates the invariant.
\<close>

theorem overconfident_result_returned:
  "fst (analyzeAudio overconfidentEnv ''UklGRg=='' ''audio/wav'' ''English'')
     = Inr overconfidentResult
   \<and> \<not> specInvariant overconfidentResult"
proof -
  have "tryBlock overconfidentEnv 0 (primaryRequest ''UklGRg=='' ''audio/wav'' ''English'')
        = Inr overconfidentResult"
    by (simp add: tryBlock_def overconfidentEnv_def scripted_def overconfidentBody_def)
  then have "fst (analyzeAudio overconfidentEnv ''UklGRg=='' ''audio/wav'' ''English'')
             = Inr overconfidentResult"
    by (simp add: first_attempt_success)
  moreover have "\<not> specInvariant overconfidentResult"
    by (simp add: specInvariant_def overconfidentResult_def)
  ultimately show ?thesis by simp
qed

text \<open>
  Claim C2, amended. \<^verbatim>\<open>analyzeAudio\<close> does not validate the response: when an
  attempt that is reached after transient failures only resolves with a non-empty body
  that \<^verbatim>\<open>JSON.parse\<close> accepts, the parsed value is returned as it is, whatever
  its classification and its confidence are. Nothing is rejected and nothing is clamped.
\<close>

theorem parsed_body_returned_as_is:
  assumes "k \<le> 5" and "\<forall>i<k. transientAt env (requestBody b m l) i"
    and "generateContent env k (requestAt (requestBody b m l) k) = Resolves (Some t)"
    and "t \<noteq> []" and "JSON_parse env t = Inr v"
  shows "fst (analyzeAudio env b m l) = Inr v"
proof -
  have t: "tryBlock env k (requestAt (requestBody b m l) k) = Inr v"
    using assms(3-5) by (simp add: tryBlock_def)
  then have "\<not> transientAt env (requestBody b m l) k"
    by (simp add: transientAt_def)
  then show ?thesis
    using attemptAnalysis_final [OF assms(2) assms(1)] t
    by (simp add: analyzeAudio_def)
qed

theorem parsed_body_returned_as_is_witness:
  "transientAt overconfidentAfterRetryEnv (requestBody ''AAAA'' ''audio/mpeg'' ''Hindi'') 0
   \<and> fst (analyzeAudio overconfidentAfterRetryEnv ''AAAA'' ''audio/mpeg'' ''Hindi'')
       = Inr overconfidentResult"
proof -
  let ?rb = "requestBody ''AAAA'' ''audio/mpeg'' ''Hindi''"
  have ne: "overconfidentBody \<noteq> []"
    by (simp add: overconfidentBody_def)
  have t0: "transientAt overconfidentAfterRetryEnv ?rb 0"
    using isQuota_tooManyRequests
    by (simp add: transientAt_def tryBlock_def overconfidentAfterRetryEnv_def scripted_def)
  then have before: "\<forall>i<Suc 0. transientAt overconfidentAfterRetryEnv ?rb i"
    by simp
  have g: "generateContent overconfidentAfterRetryEnv (Suc 0) (requestAt ?rb (Suc 0))
           = Resolves (Some overconfidentBody)"
    by (simp add: overconfidentAfterRetryEnv_def scripted_def)
  have p: "JSON_parse overconfidentAfterRetryEnv overconfidentBody = Inr overconfidentResult"
    by (simp add: overconfidentAfterRetryEnv_def scripted_def)
  have "Suc 0 \<le> 5"
    by simp
  from parsed_body_returned_as_is [OF this before g ne p] t0 show ?thesis
    by simp
qed

subsection \<open>The bound on calls and waits\<close>

text \<open>
  Claim C3, as stated, says that the calls, at most six, are each separated by a backoff
  wait. The bound on the calls holds, but the fallback is not preceded by a wait: line
  116 calls the secondary tier as soon as the third call on the primary tier has failed.
  Counterexample: under persistent throttling the schedule of calls and waits is the
  full one, in which the fourth call follows the third directly.
\<close>

theorem fallback_call_follows_without_wait:
  "schedule (snd (analyzeAudio throttledEnv ''UklGRg=='' ''audio/wav'' ''English''))
     = fullSchedule ''UklGRg=='' ''audio/wav'' ''English''
   \<and> \<not> callsSeparated (fullSchedule ''UklGRg=='' ''audio/wav'' ''English'')"
  by (simp add: throttledEnv_run fullSchedule_def)

text \<open>
  Claim C3, amended. For every behaviour of the remote calls \<^verbatim>\<open>analyzeAudio\<close>
  returns one result (the function is total: its recursion was shown to terminate) after
  at most six calls, at most three on each tier. Its calls and waits are an initial
  piece of the full schedule that ends with a call: successive calls on the same tier
  are separated by a wait of 2000 ms and then of 4000 ms, the first call on the secondary
  tier follows the third call on the primary tier with no wait, and the waits add up to
  12000 ms at most.
\<close>

theorem bounded_ladder:
  "(\<exists>n. (n = 1 \<or> n = 3 \<or> n = 5 \<or> n = 6 \<or> n = 8 \<or> n = 10)
        \<and> schedule (snd (analyzeAudio env b m l)) = take n (fullSchedule b m l))
   \<and> length (requests (snd (analyzeAudio env b m l))) \<le> 6
   \<and> length (filter (\<lambda>r. model r = ''gemini-3-pro-preview'')
               (requests (snd (analyzeAudio env b m l)))) \<le> 3
   \<and> length (filter (\<lambda>r. model r = ''gemini-3-flash-preview'')
               (requests (snd (analyzeAudio env b m l)))) \<le> 3
   \<and> sum_list (waits (snd (analyzeAudio env b m l))) \<le> 12000"
proof -
  let ?rb = "requestBody b m l"
  obtain k where k: "k \<le> 5" and run: "analyzeAudio env b m l =
       (tryBlock env k (requestAt ?rb k),
        ladder ?rb k @ [Call (requestAt ?rb k)]
        @ (if transientAt env ?rb k then [ConsoleWarn ''gemini-3-flash-preview'' 3] else []))"
    by (rule analyzeAudio_run)
  have sch: "schedule (snd (analyzeAudio env b m l))
             = take (if k < 3 then 2 * k + 1 else 2 * k) (fullSchedule b m l)"
    using schedule_of_run [OF k, of b m l] by (simp add: run)
  have rq: "requests (snd (analyzeAudio env b m l))
        = take (Suc k) (replicate 3 (primaryRequest b m l) @ replicate 3 (secondaryRequest b m l))"
    using requests_of_run [OF k, of b m l] by (simp add: run requests_ladder)
  have wt: "waits (snd (analyzeAudio env b m l))
            = take (if k < 3 then k else k - 1) [2000, 4000, 2000, 4000]"
    using waits_of_run [OF k, of ?rb] by (simp add: run)
  have cases: "k = 0 \<or> k = Suc 0 \<or> k = Suc (Suc 0) \<or> k = Suc (Suc (Suc 0))
     \<or> k = Suc (Suc (Suc (Suc 0))) \<or> k = Suc (Suc (Suc (Suc (Suc 0))))"
    using k by (rule upto_six)
  have 1: "\<exists>n. (n = 1 \<or> n = 3 \<or> n = 5 \<or> n = 6 \<or> n = 8 \<or> n = 10)
        \<and> schedule (snd (analyzeAudio env b m l)) = take n (fullSchedule b m l)"
    unfolding sch using cases by (elim disjE) auto
  have 2: "length (requests (snd (analyzeAudio env b m l))) \<le> 6"
    unfolding rq by simp
  have 3: "length (filter (\<lambda>r. model r = ''gemini-3-pro-preview'')
               (requests (snd (analyzeAudio env b m l)))) \<le> 3"
    unfolding rq using cases by (elim disjE) (simp_all add: numeral_3_eq_3)
  have 4: "length (filter (\<lambda>r. model r = ''gemini-3-flash-preview'')
               (requests (snd (analyzeAudio env b m l)))) \<le> 3"
    unfolding rq using cases by (elim disjE) (simp_all add: numeral_3_eq_3)
  have 5: "sum_list (waits (snd (analyzeAudio env b m l))) \<le> 12000"
    unfolding wt using cases by (elim disjE) simp_all
  show ?thesis
    using 1 2 3 4 5 by blast
qed

subsection \<open>A failure that is not transient\<close>

text \<open>
  Claim C4. When the first remote call fails with an error that carries no quota signal,
  \<^verbatim>\<open>analyzeAudio\<close> throws that very error after this one call: the event list
  holds the single call, so there is no wait, no retry and no call on the secondary tier.
\<close>

theorem non_transient_first_failure:
  assumes "generateContent env 0 (primaryRequest b m l) = Rejects e" and "\<not> isQuota e"
  shows "analyzeAudio env b m l = (Inl e, [Call (primaryRequest b m l)])"
  using assms
    attemptAnalysis_fatal [of env "[]" "requestBody b m l" "''gemini-3-pro-preview''" 2048 e 0]
  by (simp add: analyzeAudio_def primaryRequest_def tryBlock_Rejects)

theorem non_transient_first_failure_witness:
  "\<not> isQuota invalidKey
   \<and> analyzeAudio (scripted [Rejects invalidKey] []) ''UklGRg=='' ''audio/wav'' ''English''
       = (Inl invalidKey, [Call (primaryRequest ''UklGRg=='' ''audio/wav'' ''English'')])"
proof -
  have g: "generateContent (scripted [Rejects invalidKey] []) 0
             (primaryRequest ''UklGRg=='' ''audio/wav'' ''English'') = Rejects invalidKey"
    by (simp add: scripted_def)
  show ?thesis
    using not_isQuota_invalidKey non_transient_first_failure [OF g not_isQuota_invalidKey]
    by simp
qed

subsection \<open>Success on the second attempt\<close>

text \<open>
  Claim C5. When the first attempt fails with a quota signal and the second call on the
  primary tier resolves with a non-empty body that parses, \<^verbatim>\<open>analyzeAudio\<close>
  returns the parsed value after exactly two calls, both on the primary tier, with one
  wait of 2000 ms between them.
\<close>

theorem success_on_second_attempt:
  assumes "tryBlock env 0 (primaryRequest b m l) = Inl e" and "isQuota e"
    and "generateContent env 1 (primaryRequest b m l) = Resolves (Some t)" and "t \<noteq> []"
    and "JSON_parse env t = Inr v"
  shows "analyzeAudio env b m l =
           (Inr v, [Call (primaryRequest b m l), ConsoleWarn ''gemini-3-pro-preview'' 1,
                    Wait 2000, Call (primaryRequest b m l)])"
proof -
  have "tryBlock env 1 (primaryRequest b m l) = Inr v"
    using assms(3-5) by (simp add: tryBlock_def)
  with assms(1,2) show ?thesis
    by (rule first_transient_second_success)
qed

theorem success_on_second_attempt_witness:
  "analyzeAudio recoveringEnv ''UklGRg=='' ''audio/wav'' ''English'' =
     (Inr goodResult,
      [Call (primaryRequest ''UklGRg=='' ''audio/wav'' ''English''),
       ConsoleWarn ''gemini-3-pro-preview'' 1, Wait 2000,
       Call (primaryRequest ''UklGRg=='' ''audio/wav'' ''English'')])"
proof -
  have "goodBody \<noteq> []"
    by (simp add: goodBody_def)
  then show ?thesis
    using isQuota_tooManyRequests
    by (intro success_on_second_attempt [where e = tooManyRequests and t = goodBody])
       (simp_all add: recoveringEnv_def scripted_def tryBlock_def)
qed

subsection \<open>Empty and unparseable bodies\<close>

text \<open>
  Claim C6, as stated, says that a body that fails to parse or to validate ends the
  request with a failure that is never retried, because parse failures play no part in
  the decision to retry. In the code the error \<^verbatim>\<open>JSON.parse\<close> throws is caught
  by the same handler as the errors of the remote call, and its message goes through the
  same quota check; and nothing is validated. Counterexample, in two parts: a first body
  that is not JSON, with a parser message that quotes the word quota from it, makes the
  call be repeated after 2000 ms, and the second answer is returned; and a body that
  parses to a classification outside the enumeration is returned as the result.
\<close>

theorem parse_failure_retried_and_unvalidated:
  "isQuota quotaSyntaxError
   \<and> JSON_parse reparsedEnv quotaBody = Inl quotaSyntaxError
   \<and> generateContent reparsedEnv 0 (primaryRequest ''UklGRg=='' ''audio/wav'' ''English'')
       = Resolves (Some quotaBody)
   \<and> analyzeAudio reparsedEnv ''UklGRg=='' ''audio/wav'' ''English'' =
       (Inr goodResult,
        [Call (primaryRequest ''UklGRg=='' ''audio/wav'' ''English''),
         ConsoleWarn ''gemini-3-pro-preview'' 1, Wait 2000,
         Call (primaryRequest ''UklGRg=='' ''audio/wav'' ''English'')])
   \<and> analyzeAudio unlabelledEnv ''UklGRg=='' ''audio/wav'' ''English'' =
       (Inr unlabelledResult, [Call (primaryRequest ''UklGRg=='' ''audio/wav'' ''English'')])
   \<and> \<not> specInvariant unlabelledResult"
proof -
  let ?P = "primaryRequest ''UklGRg=='' ''audio/wav'' ''English''"
  have q: "isQuota quotaSyntaxError"
    by (simp add: isQuota_def quotaSyntaxError_def str_includes_def sublist_code)
  have ne: "quotaBody \<noteq> []" "goodBody \<noteq> []" "quotaBody \<noteq> goodBody" "unlabelledBody \<noteq> []"
    by (simp_all add: quotaBody_def goodBody_def unlabelledBody_def)
  have p: "JSON_parse reparsedEnv quotaBody = Inl quotaSyntaxError"
    by (simp add: reparsedEnv_def scripted_def)
  have g: "generateContent reparsedEnv 0 ?P = Resolves (Some quotaBody)"
    by (simp add: reparsedEnv_def scripted_def)
  have t0: "tryBlock reparsedEnv 0 ?P = Inl quotaSyntaxError"
    using ne by (simp add: tryBlock_def reparsedEnv_def scripted_def)
  have t1: "tryBlock reparsedEnv 1 ?P = Inr goodResult"
    using ne by (simp add: tryBlock_def reparsedEnv_def scripted_def)
  have u: "tryBlock unlabelledEnv 0 ?P = Inr unlabelledResult"
    using ne by (simp add: tryBlock_def unlabelledEnv_def scripted_def)
  have s: "\<not> specInvariant unlabelledResult"
    by (simp add: specInvariant_def unlabelledResult_def)
  show ?thesis
    using q p g s first_transient_second_success [OF t0 q t1] first_attempt_success [OF u]
    by simp
qed

text \<open>
  Claim C6, amended. If some remote call of the request resolves with an absent or empty
  body, the request ends there with the error \<open>Empty response from Gemini\<close>; if it
  resolves with a body that \<^verbatim>\<open>JSON.parse\<close> rejects with an error whose message
  carries no quota signal, the request ends there with that error. In both cases this
  call is the last event: no wait, no retry and no fallback follow. The returned value
  is not validated.
\<close>

theorem unusable_body_ends_request:
  assumes run: "analyzeAudio env b m l = (r, tr)"
    and k: "k < length (requests tr)"
    and body: "generateContent env k (requests tr ! k) = Resolves body"
    and unusable: "body = None \<and> e = emptyResponse
                   \<or> body = Some [] \<and> e = emptyResponse
                   \<or> (\<exists>t. body = Some t \<and> t \<noteq> [] \<and> JSON_parse env t = Inl e \<and> \<not> isQuota e)"
  shows "r = Inl e \<and> length (requests tr) = Suc k \<and> last tr = Call (requests tr ! k)"
proof -
  let ?rb = "requestBody b m l"
  obtain n where n: "n \<le> 5" "\<forall>i<n. transientAt env ?rb i"
    and fin: "analyzeAudio env b m l =
       (tryBlock env n (requestAt ?rb n),
        ladder ?rb n @ [Call (requestAt ?rb n)]
        @ (if transientAt env ?rb n then [ConsoleWarn ''gemini-3-flash-preview'' 3] else []))"
    by (rule analyzeAudio_run)
  have rq: "requests tr = map (requestAt ?rb) [0..<Suc n]"
    using run fin by (auto simp: requests_ladder)
  then have kn: "k \<le> n" and rk: "requests tr ! k = requestAt ?rb k"
    using k by (simp_all add: nth_append less_Suc_eq_le split: if_splits)
  have t: "tryBlock env k (requestAt ?rb k) = Inl e" and nq: "\<not> isQuota e"
    using body unusable not_isQuota_emptyResponse
    by (auto simp: rk tryBlock_def)
  then have nt: "\<not> transientAt env ?rb k"
    by (simp add: transientAt_def)
  then have kn: "k = n"
    using kn n(2) by (cases "k < n") auto
  have r: "r = Inl e" and tr: "tr = ladder ?rb k @ [Call (requestAt ?rb k)]"
    using run fin t nt by (simp_all add: kn)
  have "length (requests tr) = Suc k"
    by (simp add: rq kn)
  moreover have "last tr = Call (requests tr ! k)"
    unfolding rk by (simp add: tr)
  ultimately show ?thesis
    using r by simp
qed

theorem unusable_body_ends_request_witness:
  "analyzeAudio emptyAfterRetryEnv ''UklGRg=='' ''audio/wav'' ''English'' =
     (Inl emptyResponse,
      [Call (primaryRequest ''UklGRg=='' ''audio/wav'' ''English''),
       ConsoleWarn ''gemini-3-pro-preview'' 1, Wait 2000,
       Call (primaryRequest ''UklGRg=='' ''audio/wav'' ''English'')])
   \<and> generateContent emptyAfterRetryEnv 1 (primaryRequest ''UklGRg=='' ''audio/wav'' ''English'')
       = Resolves (Some [])
   \<and> fst (analyzeAudio emptyAfterRetryEnv ''UklGRg=='' ''audio/wav'' ''English'')
       = Inl emptyResponse
   \<and> length (requests (snd (analyzeAudio emptyAfterRetryEnv ''UklGRg=='' ''audio/wav'' ''English'')))
       = 2"
proof -
  let ?P = "primaryRequest ''UklGRg=='' ''audio/wav'' ''English''"
  let ?tr = "[Call ?P, ConsoleWarn ''gemini-3-pro-preview'' 1, Wait 2000, Call ?P]"
  have t0: "tryBlock emptyAfterRetryEnv 0 ?P = Inl tooManyRequests"
    by (simp add: tryBlock_def emptyAfterRetryEnv_def scripted_def)
  have t1: "tryBlock emptyAfterRetryEnv 1 ?P = Inl emptyResponse"
    by (simp add: tryBlock_def emptyAfterRetryEnv_def scripted_def)
  have run: "analyzeAudio emptyAfterRetryEnv ''UklGRg=='' ''audio/wav'' ''English''
             = (Inl emptyResponse, ?tr)"
    using t0 isQuota_tooManyRequests t1 not_isQuota_emptyResponse
    by (rule first_transient_second_fatal)
  have k: "1 < length (requests ?tr)"
    by simp
  have g: "generateContent emptyAfterRetryEnv 1 (requests ?tr ! 1) = Resolves (Some [])"
    by (simp add: emptyAfterRetryEnv_def scripted_def)
  have u: "Some [] = None \<and> emptyResponse = emptyResponse
           \<or> Some [] = Some [] \<and> emptyResponse = emptyResponse
           \<or> (\<exists>t. Some [] = Some t \<and> t \<noteq> [] \<and> JSON_parse emptyAfterRetryEnv t = Inl emptyResponse
                  \<and> \<not> isQuota emptyResponse)"
    by simp
  from unusable_body_ends_request [OF run k g u] run g show ?thesis
    by simp
qed

subsection \<open>The prompt and the schema\<close>

lemma sublist_skip: "sublist s zs \<Longrightarrow> sublist s (ys @ zs)"
  by (simp add: sublist_append)

lemma sublist_take: "sublist s ys \<Longrightarrow> sublist s (ys @ zs)"
  by (simp add: sublist_append)

lemma sublist_line: "sublist s (line s)"
  unfolding line_def by (rule sublist_appendI)

lemma includes_line: "s \<in> set ls \<Longrightarrow> sublist s (concat (map line ls))"
proof (induction ls)
  case Nil
  then show ?case by simp
next
  case (Cons a ls)
  show ?case
  proof (cases "s = a")
    case True
    then show ?thesis
      by (simp add: sublist_take sublist_line)
  next
    case False
    then have "sublist s (concat (map line ls))"
      using Cons by simp
    then show ?thesis
      by (simp add: sublist_skip)
  qed
qed

lemma prompt_includes_criterion: "s \<in> set criteria \<Longrightarrow> str_includes (prompt lang) s"
  unfolding str_includes_def prompt_def
  by (rule sublist_skip, rule sublist_skip, rule sublist_skip, rule sublist_skip,
      rule sublist_skip, rule sublist_skip, rule sublist_skip, rule sublist_take,
      erule includes_line)

lemma prompt_includes_decision: "s \<in> set decisionLogic \<Longrightarrow> str_includes (prompt lang) s"
  unfolding str_includes_def prompt_def
  by (rule sublist_skip, rule sublist_skip, rule sublist_skip, rule sublist_skip,
      rule sublist_skip, rule sublist_skip, rule sublist_skip, rule sublist_skip,
      rule sublist_skip, rule sublist_skip, rule sublist_take, erule includes_line)

lemma sublist_set: "sublist s t \<Longrightarrow> set s \<subseteq> set t"
  by (auto simp: sublist_def)

lemma sublist_across:
  assumes "c \<notin> set s"
  shows "sublist s (a @ c # b) \<longleftrightarrow> sublist s a \<or> sublist s b"
proof
  assume "sublist s a \<or> sublist s b"
  then show "sublist s (a @ c # b)"
    by (auto simp: sublist_append sublist_Cons_right)
next
  assume "sublist s (a @ c # b)"
  then consider "sublist s a" | "sublist s (c # b)"
    | s1 s2 where "s = s1 @ s2" "suffix s1 a" "prefix s2 (c # b)"
    by (auto simp: sublist_append)
  then show "sublist s a \<or> sublist s b"
  proof cases
    case 1
    then show ?thesis by simp
  next
    case 2
    then show ?thesis
      using assms by (cases s) (auto simp: sublist_Cons_right prefix_Cons)
  next
    case 3
    show ?thesis
    proof (cases s2)
      case Nil
      then show ?thesis
        using 3 by (auto intro: suffix_imp_sublist)
    next
      case (Cons x xs)
      then show ?thesis
        using 3 assms by (auto simp: prefix_Cons)
    qed
  qed
qed

lemma sublist_line_split:
  "CHR 0x0A \<notin> set s \<Longrightarrow>
   sublist s (line a @ rest) \<longleftrightarrow> sublist s (''      '' @ a) \<or> sublist s rest"
  using sublist_across [of "CHR 0x0A" s "''      '' @ a" rest] by (simp add: line_def)

lemma sublist_after_feed:
  "CHR 0x0A \<notin> set s \<Longrightarrow> sublist s (CHR 0x0A # rest) \<longleftrightarrow> sublist s [] \<or> sublist s rest"
  using sublist_across [of "CHR 0x0A" s "[]" rest] by simp

lemma english_prompt_chars:
  "CHR 0xE2 \<notin> set (prompt ''English'')" "CHR '';'' \<notin> set (prompt ''English'')"
  "CHR ''/'' \<notin> set (prompt ''English'')"
  by (simp_all add: prompt_def line_def criteria_def decisionLogic_def)

lemma english_prompt_lacks_suggests:
  "\<not> str_includes (prompt ''English'') ''suggests synthesis''"
  unfolding str_includes_def prompt_def criteria_def decisionLogic_def
  by (simp add: sublist_line_split sublist_after_feed sublist_code)

lemma english_prompt_lacks_noise_floor:
  "\<not> str_includes (prompt ''English'') ''noise floor''"
  unfolding str_includes_def prompt_def criteria_def decisionLogic_def
  by (simp add: sublist_line_split sublist_after_feed sublist_code)

lemma english_prompt_lacks_leans:
  "\<not> str_includes (prompt ''English'') ''leans''"
  unfolding str_includes_def prompt_def criteria_def decisionLogic_def
  by (simp add: sublist_line_split sublist_after_feed sublist_code)

text \<open>
  Claim C7, as stated, says that the instruction text embeds verbatim the five
  evaluation criteria and the decision heuristic, which the specification lists in its
  own words. The prompt of the source words them differently. Counterexample: for the
  language English none of the specification's five criteria and not its heuristic
  occurs in the prompt, and neither do the phrases \<open>Breath/pause naturalness\<close>,
  \<open>suggests synthesis\<close>, \<open>noise floor\<close> and \<open>leans\<close> taken from them.
\<close>

theorem spec_wording_absent_from_prompt:
  "\<not> str_includes (prompt ''English'') (specCriteria ! 0)
   \<and> \<not> str_includes (prompt ''English'') (specCriteria ! 1)
   \<and> \<not> str_includes (prompt ''English'') (specCriteria ! 2)
   \<and> \<not> str_includes (prompt ''English'') (specCriteria ! 3)
   \<and> \<not> str_includes (prompt ''English'') (specCriteria ! 4)
   \<and> \<not> str_includes (prompt ''English'') specHeuristic
   \<and> \<not> str_includes (prompt ''English'') ''Breath/pause naturalness''
   \<and> \<not> str_includes (prompt ''English'') ''suggests synthesis''
   \<and> \<not> str_includes (prompt ''English'') ''noise floor''
   \<and> \<not> str_includes (prompt ''English'') ''leans''"
proof -
  have dash: "\<not> str_includes (prompt ''English'') s" if "CHR 0xE2 \<in> set s" for s
    using that english_prompt_chars(1) sublist_set [of s "prompt ''English''"]
    by (auto simp: str_includes_def)
  have semi: "\<not> str_includes (prompt ''English'') s" if "CHR '';'' \<in> set s" for s
    using that english_prompt_chars(2) sublist_set [of s "prompt ''English''"]
    by (auto simp: str_includes_def)
  have slash: "\<not> str_includes (prompt ''English'') s" if "CHR ''/'' \<in> set s" for s
    using that english_prompt_chars(3) sublist_set [of s "prompt ''English''"]
    by (auto simp: str_includes_def)
  have c: "\<not> str_includes (prompt ''English'') (specCriteria ! 0)"
    "\<not> str_includes (prompt ''English'') (specCriteria ! 1)"
    "\<not> str_includes (prompt ''English'') (specCriteria ! 2)"
    "\<not> str_includes (prompt ''English'') (specCriteria ! 3)"
    "\<not> str_includes (prompt ''English'') (specCriteria ! 4)"
    by (rule dash, simp add: specCriteria_def emDash_def)+
  have h: "\<not> str_includes (prompt ''English'') specHeuristic"
    by (rule semi) (simp add: specHeuristic_def)
  have b: "\<not> str_includes (prompt ''English'') ''Breath/pause naturalness''"
    by (rule slash) simp
  show ?thesis
    using c h b english_prompt_lacks_suggests english_prompt_lacks_noise_floor
      english_prompt_lacks_leans
    by blast
qed

text \<open>
  Claim C7, amended. The prompt and the schema are functions of the target language
  alone and are defined for every language. Whatever the language, the prompt contains,
  word for word, the five evaluation criteria and the two lines of decision logic as the
  source words them (breath and pauses, prosody and intonation, spectral artifacts,
  micro-details, background silence; what sounds too perfect is likely AI, what has
  natural imperfections is likely HUMAN), and the line naming the language; the request
  body holds the audio and this prompt; the configuration does not depend on the
  arguments at all, asks for JSON, and its schema has exactly the properties
  classification, confidence and explanation, all three required, with classification
  restricted to AI_GENERATED and HUMAN.
\<close>

theorem forensic_prompt_and_schema:
  \<open>str_includes (prompt lang) ''1. **Breath & Pauses**: Real humans breathe. AI often forgets to breathe or places breaths at unnatural intervals.''
   \<and> str_includes (prompt lang) ''2. **Prosody & Intonation**: Human speech has irregular pitch curves. AI often produces "flat" or "perfectly cyclic" pitch patterns.''
   \<and> str_includes (prompt lang) ''3. **Spectral Artifacts**: Listen for metallic ringing, phasing, or high-frequency buzz typical of neural vocoders.''
   \<and> str_includes (prompt lang) ''4. **Micro-details**: Lip smacks, tongue clicks, and throat clearing are strong indicators of HUMAN speech.''
   \<and> str_includes (prompt lang) ''5. **Background**: Absolute digital silence between words is a strong indicator of AI_GENERATED.''
   \<and> str_includes (prompt lang) ''- If it sounds "too perfect", it is likely AI.''
   \<and> str_includes (prompt lang) ''- If it has natural imperfections (breaths, clicks, variable pace), it is likely HUMAN.''
   \<and> str_includes (prompt lang) (''LANGUAGE: '' @ lang)
   \<and> contents (requestBody b m lang) = [InlineData m b, TextPart (prompt lang)]
   \<and> config (requestBody b m lang) = config (requestBody b' m' lang')
   \<and> responseMimeType (config (requestBody b m lang)) = ''application/json''
   \<and> map fst (properties (responseSchema (config (requestBody b m lang))))
       = [''classification'', ''confidence'', ''explanation'']
   \<and> required (responseSchema (config (requestBody b m lang)))
       = [''classification'', ''confidence'', ''explanation'']
   \<and> map_option penum (map_of (properties (responseSchema (config (requestBody b m lang))))
         ''classification'') = Some (Some [''AI_GENERATED'', ''HUMAN''])\<close>
proof -
  have lang: "str_includes (prompt lang) (''LANGUAGE: '' @ lang)"
    unfolding str_includes_def prompt_def
    by (rule sublist_skip, rule sublist_skip, rule sublist_skip, rule sublist_skip,
        rule sublist_take, rule sublist_line)
  have c: "str_includes (prompt lang) (criteria ! 0)" "str_includes (prompt lang) (criteria ! 1)"
    "str_includes (prompt lang) (criteria ! 2)" "str_includes (prompt lang) (criteria ! 3)"
    "str_includes (prompt lang) (criteria ! 4)"
    by (rule prompt_includes_criterion, simp add: criteria_def)+
  have d: "str_includes (prompt lang) (decisionLogic ! 0)"
    "str_includes (prompt lang) (decisionLogic ! 1)"
    by (rule prompt_includes_decision, simp add: decisionLogic_def)+
  have s: "contents (requestBody b m lang) = [InlineData m b, TextPart (prompt lang)]"
    "config (requestBody b m lang) = config (requestBody b' m' lang')"
    "responseMimeType (config (requestBody b m lang)) = ''application/json''"
    "map fst (properties (responseSchema (config (requestBody b m lang))))
       = [''classification'', ''confidence'', ''explanation'']"
    "required (responseSchema (config (requestBody b m lang)))
       = [''classification'', ''confidence'', ''explanation'']"
    "map_option penum (map_of (properties (responseSchema (config (requestBody b m lang))))
         ''classification'') = Some (Some [''AI_GENERATED'', ''HUMAN''])"
    by (simp_all add: requestBody_def responseSchemaDef_def)
  show ?thesis
    using lang c d s by (simp add: criteria_def decisionLogic_def)
qed

subsection \<open>What the user sees after persistent throttling\<close>

text \<open>
  Claim C8 says that an error the service treats as throttling, once it has outlasted
  all six attempts, is shown to the user as the high-traffic message. The service
  treats a message containing \<open>resource exhausted\<close> as throttling (line 102), but
  the submit handler looks for \<open>429\<close> and \<open>quota\<close> only (its line 37). When every
  call fails with the message \<open>resource exhausted\<close>, the service makes its six calls
  and rethrows the error, and the handler shows the generic message instead.
\<close>

theorem resource_exhausted_shown_as_generic_failure:
  "isQuota resourceExhausted
   \<and> fst (analyzeAudio exhaustedEnv ''UklGRg=='' ''audio/wav'' ''English'') = Inl resourceExhausted
   \<and> length (requests (snd (analyzeAudio exhaustedEnv ''UklGRg=='' ''audio/wav'' ''English''))) = 6
   \<and> error (fst (handleSubmit exhaustedEnv readyApp))
       = Some ''Could not analyze audio. Please ensure the file is a valid audio format.''"
proof -
  note run = scripted_replicate_run
    [OF isQuota_resourceExhausted, of "''UklGRg==''" "''audio/wav''" "''English''"]
  have m: "message resourceExhausted = Some ''resource exhausted''"
    by (simp add: resourceExhausted_def)
  have n: "\<not> str_includes ''resource exhausted'' ''429''"
    "\<not> str_includes ''resource exhausted'' ''quota''"
    "\<not> str_includes ''resource exhausted'' ''safety''"
    "\<not> str_includes ''resource exhausted'' ''blocked''"
    by (simp_all add: str_includes_def sublist_code)
  have "error (fst (handleSubmit exhaustedEnv readyApp))
       = Some ''Could not analyze audio. Please ensure the file is a valid audio format.''"
    using n m by (simp add: handleSubmit_def readyApp_def exhaustedEnv_def run Let_def)
  then show ?thesis
    using isQuota_resourceExhausted by (simp add: exhaustedEnv_def run)
qed

subsection \<open>The output cap of every request\<close>

text \<open>
  Claim C9. Every request \<^verbatim>\<open>analyzeAudio\<close> issues carries an output cap equal to
  its own reasoning budget plus 4096, next to that budget, which is 2048 on the primary
  tier and 1024 on the secondary tier.
\<close>

theorem output_cap_is_budget_plus_headroom:
  "\<forall>r \<in> set (requests (snd (analyzeAudio env b m l))).
     maxOutputTokens (reqConfig r) = thinkingBudget (thinkingConfig (reqConfig r)) + 4096
     \<and> (model r = ''gemini-3-pro-preview'' \<and> thinkingBudget (thinkingConfig (reqConfig r)) = 2048
        \<or> model r = ''gemini-3-flash-preview'' \<and> thinkingBudget (thinkingConfig (reqConfig r)) = 1024)"
proof
  fix r
  assume r: "r \<in> set (requests (snd (analyzeAudio env b m l)))"
  obtain k where "k \<le> 5" and run: "analyzeAudio env b m l =
       (tryBlock env k (requestAt (requestBody b m l) k),
        ladder (requestBody b m l) k @ [Call (requestAt (requestBody b m l) k)]
        @ (if transientAt env (requestBody b m l) k
           then [ConsoleWarn ''gemini-3-flash-preview'' 3] else []))"
    by (rule analyzeAudio_run)
  have "requests (snd (analyzeAudio env b m l)) = map (requestAt (requestBody b m l)) [0..<Suc k]"
    by (simp add: run requests_ladder)
  then obtain i where "r = requestAt (requestBody b m l) i"
    using r by auto
  then show "maxOutputTokens (reqConfig r) = thinkingBudget (thinkingConfig (reqConfig r)) + 4096
     \<and> (model r = ''gemini-3-pro-preview'' \<and> thinkingBudget (thinkingConfig (reqConfig r)) = 2048
        \<or> model r = ''gemini-3-flash-preview'' \<and> thinkingBudget (thinkingConfig (reqConfig r)) = 1024)"
    by (simp add: requestAt_def attemptRequest_def tierModel_def tierBudget_def)
qed

theorem output_cap_is_budget_plus_headroom_witness:
  "secondaryRequest ''UklGRg=='' ''audio/wav'' ''English''
     \<in> set (requests (snd (analyzeAudio throttledEnv ''UklGRg=='' ''audio/wav'' ''English'')))
   \<and> thinkingBudget (thinkingConfig (reqConfig (secondaryRequest ''UklGRg=='' ''audio/wav'' ''English'')))
       = 1024
   \<and> maxOutputTokens (reqConfig (secondaryRequest ''UklGRg=='' ''audio/wav'' ''English'')) = 5120"
proof -
  let ?F = "secondaryRequest ''UklGRg=='' ''audio/wav'' ''English''"
  have mem: "?F \<in> set (requests (snd (analyzeAudio throttledEnv ''UklGRg=='' ''audio/wav'' ''English'')))"
    by (simp add: throttledEnv_run)
  from output_cap_is_budget_plus_headroom [rule_format, OF mem]
  have "maxOutputTokens (reqConfig ?F) = thinkingBudget (thinkingConfig (reqConfig ?F)) + 4096"
    and "thinkingBudget (thinkingConfig (reqConfig ?F)) = 1024"
    by simp_all
  then show ?thesis
    using mem by simp
qed

subsection \<open>The order of the tiers\<close>

text \<open>
  Claim C10. The requests of one execution are an initial piece, of one to six calls,
  of the list made of three requests to the primary tier (gemini-3-pro-preview, budget
  2048) followed by three requests to the secondary tier (gemini-3-flash-preview, budget
  1024): the tier changes at most once, from primary to secondary, never back and never
  to a third tier. The result is the outcome of the last call; after the sixth call
  that is its error, rethrown.
\<close>

theorem one_way_fallback:
  "\<exists>k. 1 \<le> k \<and> k \<le> 6
     \<and> requests (snd (analyzeAudio env b m l))
         = take k (replicate 3 (primaryRequest b m l) @ replicate 3 (secondaryRequest b m l))
     \<and> fst (analyzeAudio env b m l)
         = tryBlock env (k - 1) (last (requests (snd (analyzeAudio env b m l))))
     \<and> model (primaryRequest b m l) = ''gemini-3-pro-preview''
     \<and> thinkingBudget (thinkingConfig (reqConfig (primaryRequest b m l))) = 2048
     \<and> model (secondaryRequest b m l) = ''gemini-3-flash-preview''
     \<and> thinkingBudget (thinkingConfig (reqConfig (secondaryRequest b m l))) = 1024"
proof -
  obtain k where k: "k \<le> 5" and run: "analyzeAudio env b m l =
       (tryBlock env k (requestAt (requestBody b m l) k),
        ladder (requestBody b m l) k @ [Call (requestAt (requestBody b m l) k)]
        @ (if transientAt env (requestBody b m l) k
           then [ConsoleWarn ''gemini-3-flash-preview'' 3] else []))"
    by (rule analyzeAudio_run)
  have rq: "requests (snd (analyzeAudio env b m l))
        = map (requestAt (requestBody b m l)) [0..<k] @ [requestAt (requestBody b m l) k]"
    by (simp add: run requests_ladder)
  have lst: "last (requests (snd (analyzeAudio env b m l))) = requestAt (requestBody b m l) k"
    by (simp add: rq)
  have tk: "requests (snd (analyzeAudio env b m l))
        = take (Suc k) (replicate 3 (primaryRequest b m l) @ replicate 3 (secondaryRequest b m l))"
    using requests_of_run [OF k, of b m l] rq by simp
  have res: "fst (analyzeAudio env b m l)
        = tryBlock env (Suc k - 1) (last (requests (snd (analyzeAudio env b m l))))"
    unfolding lst by (simp add: run)
  show ?thesis
  proof (intro exI [of _ "Suc k"] conjI)
    show "1 \<le> Suc k" by simp
    show "Suc k \<le> 6" using k by simp
    show "requests (snd (analyzeAudio env b m l))
        = take (Suc k) (replicate 3 (primaryRequest b m l) @ replicate 3 (secondaryRequest b m l))"
      by (rule tk)
    show "fst (analyzeAudio env b m l)
        = tryBlock env (Suc k - 1) (last (requests (snd (analyzeAudio env b m l))))"
      by (rule res)
  qed (simp_all add: primaryRequest_def secondaryRequest_def attemptRequest_def)
qed

end
